theory Spec2Isabelle
  imports Main "HOL-Library.Char_ord"
begin

section \<open>The OCR client of \<^verbatim>\<open>src/nvidia_ocr/client.py\<close>\<close>

text \<open>
  The client is four methods, each of which hands one request to a
  \<^verbatim>\<open>requests.Session\<close> and turns the response into a value or an exception.
  The embedding keeps that shape: a method takes the behaviour of the network, the
  object it is called on and its arguments, and returns the value or the exception
  together with the object as the call leaves it.
\<close>

subsection \<open>Python values and exceptions\<close>

text \<open>
  Floating point numbers are never inspected by the client; they are kept opaque.
  A \<^verbatim>\<open>str\<close> is a \<^typ>\<open>string\<close>, a \<^verbatim>\<open>dict\<close> with string keys inside a value is an
  association list read with \<^const>\<open>map_of\<close>.
\<close>

typedecl pyfloat

datatype pyval =
    PNone
  | PBool bool
  | PInt int
  | PFloat pyfloat
  | PStr string
  | PBytes string
  | PList "pyval list"
  | PDict "(string \<times> pyval) list"

text \<open>
  The exceptions the module raises itself (\<open>ValueError\<close>, \<open>Exception\<close>), the ones the
  Python runtime raises in it (\<open>KeyError\<close> of a subscript, \<open>TypeError\<close> of a call whose
  keywords do not fit, \<open>JSONDecodeError\<close> of \<^verbatim>\<open>response.json()\<close>), and
  \<open>ConnectionError\<close> for a request that the transport could not complete.
\<close>

datatype py_exception =
    ValueError string
  | KeyError string
  | TypeError
  | JSONDecodeError
  | ConnectionError
  | Exception string

type_synonym 'a result = "py_exception + 'a"

subsection \<open>Requests, responses and the session\<close>

datatype http_method = GET | POST

text \<open>
  A request is what the client passes to \<^verbatim>\<open>session.post\<close> or \<^verbatim>\<open>session.get\<close>: the
  method (\<open>req_method\<close>), the URL and the keyword arguments \<open>params\<close>, \<open>files\<close>, \<open>data\<close> and \<open>json\<close>
  (an absent keyword is the empty list, or \<open>None\<close> for \<open>json\<close>).
\<close>

record request =
  req_method :: http_method
  url :: string
  params :: "(string \<times> string) list"
  files :: "(string \<times> pyval \<times> pyval) list"
  data :: "(string \<times> string) list"
  json :: "pyval option"

text \<open>
  Of a response the client reads \<^verbatim>\<open>status_code\<close>, \<^verbatim>\<open>text\<close> (field \<open>body\<close> here)
  and \<^verbatim>\<open>json()\<close>, which is \<open>None\<close> when the body is not JSON and the call raises.
\<close>

record response =
  status_code :: int
  body :: string
  json :: "pyval option"

text \<open>
  The network: for a request, either the exception the transport raises or the
  response of the service.
\<close>

type_synonym service = "request \<Rightarrow> response result"

text \<open>
  A \<^verbatim>\<open>requests.Session\<close> is modelled by the requests handed to it so far, oldest
  first. \<open>Session_request\<close> is \<^verbatim>\<open>Session.request\<close>, which \<^verbatim>\<open>post\<close> and \<^verbatim>\<open>get\<close> call.
\<close>

record Session =
  sent :: "request list"

definition new_Session :: Session where
  "new_Session = \<lparr>sent = []\<rparr>"

definition Session_request :: "service \<Rightarrow> Session \<Rightarrow> request \<Rightarrow> response result \<times> Session" where
  "Session_request srv s req = (srv req, s\<lparr>sent := sent s @ [req]\<rparr>)"

subsection \<open>\<^verbatim>\<open>str.rstrip\<close>\<close>

text \<open>\<^verbatim>\<open>s.rstrip(chars)\<close> removes every trailing character of \<open>s\<close> that occurs in \<open>chars\<close>.\<close>

definition rstrip :: "string \<Rightarrow> string \<Rightarrow> string" where
  "rstrip s chars = rev (dropWhile (\<lambda>c. c \<in> set chars) (rev s))"

subsection \<open>\<^verbatim>\<open>UploadedFile\<close>\<close>

text \<open>
  The dataclass does not check the annotated types, so every field holds a Python value.
  The field \<^verbatim>\<open>id\<close> is \<open>uf_id\<close> here.
\<close>

record UploadedFile =
  uf_id :: pyval
  purpose :: pyval
  filename :: pyval
  bytes :: pyval
  created_at :: pyval
  status :: pyval

definition UploadedFile_fields :: "string list" where
  "UploadedFile_fields = [''id'', ''purpose'', ''filename'', ''bytes'', ''created_at'', ''status'']"

text \<open>
  The generated \<^verbatim>\<open>__init__\<close> called with keyword arguments: a keyword that is not a
  field, or a field without a keyword (no field has a default), is a \<open>TypeError\<close>.
\<close>

definition UploadedFile_init :: "(string \<times> pyval) list \<Rightarrow> UploadedFile result" where
  "UploadedFile_init kwargs =
     (if \<not> list_all (\<lambda>k. k \<in> set UploadedFile_fields) (map fst kwargs) then Inl TypeError
      else
        (case (map_of kwargs ''id'', map_of kwargs ''purpose'', map_of kwargs ''filename'',
               map_of kwargs ''bytes'', map_of kwargs ''created_at'', map_of kwargs ''status'') of
           (Some a, Some b, Some c, Some d, Some e, Some f) \<Rightarrow>
             Inr \<lparr>uf_id = a, purpose = b, filename = c, bytes = d, created_at = e, status = f\<rparr>
         | _ \<Rightarrow> Inl TypeError))"

text \<open>\<^verbatim>\<open>UploadedFile(**result)\<close>: unpacking a value that is not a mapping is a \<open>TypeError\<close>.\<close>

definition UploadedFile_unpack :: "pyval \<Rightarrow> UploadedFile result" where
  "UploadedFile_unpack result =
     (case result of PDict kwargs \<Rightarrow> UploadedFile_init kwargs | _ \<Rightarrow> Inl TypeError)"

subsection \<open>\<^verbatim>\<open>FilesClient\<close>\<close>

record FilesClient =
  base_url :: string
  api_key :: string
  session :: Session

definition FilesClient_init :: "string \<Rightarrow> string \<Rightarrow> FilesClient" where
  "FilesClient_init base_url_arg api_key_arg =
     \<lparr>base_url = base_url_arg, api_key = api_key_arg, session = new_Session\<rparr>"

text \<open>
  \<^verbatim>\<open>upload(self, file, purpose="ocr")\<close>. The argument \<open>file\<close> is a dict with string
  keys; the subscript \<^verbatim>\<open>file["file_name"]\<close> raises \<open>KeyError\<close> on an absent key.
  The parameter \<^verbatim>\<open>purpose\<close> is \<open>purpose_arg\<close> here, \<open>purpose\<close> being the field of
  \<open>UploadedFile\<close>; a default value is supplied by the caller.
\<close>

definition upload ::
  "service \<Rightarrow> FilesClient \<Rightarrow> (string \<rightharpoonup> pyval) \<Rightarrow> string \<Rightarrow> UploadedFile result \<times> FilesClient" where
  "upload srv self file purpose_arg =
     (if file ''file_name'' = None \<or> file ''content'' = None
      then (Inl (ValueError ''File must contain 'file_name' and 'content' keys''), self)
      else
        (case file ''file_name'' of
           None \<Rightarrow> (Inl (KeyError ''file_name''), self)
         | Some file_name \<Rightarrow>
        (case file ''content'' of
           None \<Rightarrow> (Inl (KeyError ''content''), self)
         | Some content \<Rightarrow>
        (case Session_request srv (FilesClient.session self)
                \<lparr>req_method = POST,
                 request.url = base_url self @ ''/v1/files'',
                 params = [],
                 request.files = [(''file'', (file_name, content))],
                 data = [(''purpose'', purpose_arg)],
                 request.json = None\<rparr> of
           (r, s) \<Rightarrow>
        (case r of
           Inl e \<Rightarrow> (Inl e, self\<lparr>FilesClient.session := s\<rparr>)
         | Inr response \<Rightarrow>
             if status_code response \<noteq> 200
             then (Inl (Exception (''Upload failed: '' @ body response)),
                   self\<lparr>FilesClient.session := s\<rparr>)
             else
               (case response.json response of
                  None \<Rightarrow> (Inl JSONDecodeError, self\<lparr>FilesClient.session := s\<rparr>)
                | Some result \<Rightarrow>
                    (UploadedFile_unpack result, self\<lparr>FilesClient.session := s\<rparr>)))))))"

subsection \<open>\<^verbatim>\<open>nvOCR\<close>\<close>

record nvOCR =
  api_key :: string
  url :: string
  session :: Session
  files :: FilesClient

definition nvOCR_init :: "string \<Rightarrow> string \<Rightarrow> nvOCR" where
  "nvOCR_init api_key_arg url_arg =
     \<lparr>api_key = api_key_arg,
      url = rstrip url_arg ''/'',
      session = new_Session,
      files = FilesClient_init (rstrip url_arg ''/'') api_key_arg\<rparr>"

definition process_uploaded_file ::
  "service \<Rightarrow> nvOCR \<Rightarrow> string \<Rightarrow> string \<Rightarrow> string result \<times> nvOCR" where
  "process_uploaded_file srv self file_id prompt_mode =
     (case Session_request srv (nvOCR.session self)
             \<lparr>req_method = POST,
              request.url = nvOCR.url self @ ''/v1/ocr/process_file/'' @ file_id,
              params = [(''prompt_mode'', prompt_mode)],
              request.files = [],
              data = [],
              request.json = None\<rparr> of
        (r, s) \<Rightarrow>
     (case r of
        Inl e \<Rightarrow> (Inl e, self\<lparr>nvOCR.session := s\<rparr>)
      | Inr response \<Rightarrow>
          if status_code response \<noteq> 200
          then (Inl (Exception (''Processing failed: '' @ body response)),
                self\<lparr>nvOCR.session := s\<rparr>)
          else (Inr (body response), self\<lparr>nvOCR.session := s\<rparr>)))"

definition process_image ::
  "service \<Rightarrow> nvOCR \<Rightarrow> pyval \<Rightarrow> string \<Rightarrow> string result \<times> nvOCR" where
  "process_image srv self document prompt_mode =
     (case Session_request srv (nvOCR.session self)
             \<lparr>req_method = POST,
              request.url = nvOCR.url self @ ''/v1/ocr/process_image'',
              params = [],
              request.files = [],
              data = [],
              request.json =
                Some (PDict [(''document'', document), (''prompt_mode'', PStr prompt_mode)])\<rparr> of
        (r, s) \<Rightarrow>
     (case r of
        Inl e \<Rightarrow> (Inl e, self\<lparr>nvOCR.session := s\<rparr>)
      | Inr response \<Rightarrow>
          if status_code response \<noteq> 200
          then (Inl (Exception (''Processing failed: '' @ body response)),
                self\<lparr>nvOCR.session := s\<rparr>)
          else (Inr (body response), self\<lparr>nvOCR.session := s\<rparr>)))"

definition health_check :: "service \<Rightarrow> nvOCR \<Rightarrow> pyval result \<times> nvOCR" where
  "health_check srv self =
     (case Session_request srv (nvOCR.session self)
             \<lparr>req_method = GET,
              request.url = nvOCR.url self @ ''/health'',
              params = [],
              request.files = [],
              data = [],
              request.json = None\<rparr> of
        (r, s) \<Rightarrow>
     (case r of
        Inl e \<Rightarrow> (Inl e, self\<lparr>nvOCR.session := s\<rparr>)
      | Inr response \<Rightarrow>
          if status_code response \<noteq> 200
          then (Inl (Exception (''Health check failed: '' @ body response)),
                self\<lparr>nvOCR.session := s\<rparr>)
          else
            (case response.json response of
               None \<Rightarrow> (Inl JSONDecodeError, self\<lparr>nvOCR.session := s\<rparr>)
             | Some result \<Rightarrow> (Inr result, self\<lparr>nvOCR.session := s\<rparr>))))"

subsection \<open>The trailing-slash and lower-case normalisations the specification names\<close>

text \<open>
  These two functions are not in the source. They write down the normalisations of the
  base URL that the specification describes (removing exactly one trailing slash;
  lower-casing), so that what \<open>nvOCR_init\<close> stores can be compared with them.
\<close>

definition spec_strip_one_trailing_slash :: "string \<Rightarrow> string" where
  "spec_strip_one_trailing_slash s = (if s \<noteq> [] \<and> last s = CHR ''/'' then butlast s else s)"

definition spec_lower_char :: "char \<Rightarrow> char" where
  "spec_lower_char c =
     (if CHR ''A'' \<le> c \<and> c \<le> CHR ''Z'' then char_of (of_char c + (32::nat)) else c)"

definition spec_lowercase :: "string \<Rightarrow> string" where
  "spec_lowercase s = map spec_lower_char s"

subsection \<open>Services and inputs used in the examples\<close>

text \<open>A service that answers every request with the same response.\<close>

definition replies :: "response \<Rightarrow> service" where
  "replies resp req = Inr resp"

definition ok_json :: "(string \<times> pyval) list \<Rightarrow> response" where
  "ok_json kw = \<lparr>status_code = 200, body = ''{}'', response.json = Some (PDict kw)\<rparr>"

definition ok_text :: "string \<Rightarrow> response" where
  "ok_text s = \<lparr>status_code = 200, body = s, response.json = None\<rparr>"

definition failure :: "int \<Rightarrow> string \<Rightarrow> response" where
  "failure code s = \<lparr>status_code = code, body = s, response.json = None\<rparr>"

definition example_file :: "string \<rightharpoonup> pyval" where
  "example_file = [''file_name'' \<mapsto> PStr ''a.png'', ''content'' \<mapsto> PBytes ''0123456789'']"

definition example_fields :: "(string \<times> pyval) list" where
  "example_fields =
     [(''id'', PStr ''f1''), (''purpose'', PStr ''ocr''), (''filename'', PStr ''a.png''),
      (''bytes'', PInt 10), (''created_at'', PInt 1700000000), (''status'', PStr ''uploaded'')]"

section \<open>Auxiliary lemmas\<close>

subsection \<open>\<open>rstrip\<close>\<close>

lemma rstrip_decomp: "\<exists>n. s = rstrip s [c] @ replicate n c"
proof -
  have "rev s = takeWhile (\<lambda>x. x = c) (rev s) @ dropWhile (\<lambda>x. x = c) (rev s)"
    by simp
  moreover have "takeWhile (\<lambda>x. x = c) (rev s) = replicate (length (takeWhile (\<lambda>x. x = c) (rev s))) c"
    by (metis (mono_tags, lifting) replicate_length_same set_takeWhileD)
  ultimately have "rev s = replicate (length (takeWhile (\<lambda>x. x = c) (rev s))) c @ dropWhile (\<lambda>x. x = c) (rev s)"
    by simp
  then have "s = rev (dropWhile (\<lambda>x. x = c) (rev s)) @ replicate (length (takeWhile (\<lambda>x. x = c) (rev s))) c"
    by (metis rev_append rev_replicate rev_rev_ident)
  then show ?thesis by (auto simp: rstrip_def)
qed

lemma rstrip_no_trailing: "rstrip s [c] \<noteq> v @ [c]"
proof
  assume "rstrip s [c] = v @ [c]"
  then have "dropWhile (\<lambda>x. x = c) (rev s) = c # rev v"
    by (simp add: rstrip_def rev_swap)
  then show False
    by (metis (full_types) hd_dropWhile list.sel(1) list.distinct(1))
qed

lemma rstrip_prefix: "take (length (rstrip s cs)) s = rstrip s cs"
proof -
  have "rev s = takeWhile (\<lambda>x. x \<in> set cs) (rev s) @ dropWhile (\<lambda>x. x \<in> set cs) (rev s)"
    by simp
  then have "s = rstrip s cs @ rev (takeWhile (\<lambda>x. x \<in> set cs) (rev s))"
    unfolding rstrip_def by (metis rev_append rev_rev_ident)
  then show ?thesis by (metis append_eq_conv_conj)
qed

subsection \<open>The constructor of \<open>UploadedFile\<close>\<close>

lemma UploadedFile_init_exact:
  assumes "set (map fst kw) = set UploadedFile_fields"
  shows "\<exists>uf. UploadedFile_init kw = Inr uf \<and>
     map_of kw ''id'' = Some (uf_id uf) \<and> map_of kw ''purpose'' = Some (purpose uf) \<and>
     map_of kw ''filename'' = Some (filename uf) \<and> map_of kw ''bytes'' = Some (bytes uf) \<and>
     map_of kw ''created_at'' = Some (created_at uf) \<and> map_of kw ''status'' = Some (status uf)"
proof -
  have a: "list_all (\<lambda>k. k \<in> set UploadedFile_fields) (map fst kw)"
    using assms by (simp add: list_all_iff)
  have "\<And>k. k \<in> set UploadedFile_fields \<Longrightarrow> \<exists>v. map_of kw k = Some v"
    using assms by (metis map_of_eq_None_iff not_Some_eq set_map)
  then obtain a b c d e f where
    "map_of kw ''id'' = Some a" "map_of kw ''purpose'' = Some b" "map_of kw ''filename'' = Some c"
    "map_of kw ''bytes'' = Some d" "map_of kw ''created_at'' = Some e" "map_of kw ''status'' = Some f"
    unfolding UploadedFile_fields_def by (metis list.set_intros)
  then show ?thesis using a by (simp add: UploadedFile_init_def)
qed

lemma UploadedFile_init_drift:
  assumes "set (map fst kw) \<noteq> set UploadedFile_fields"
  shows "UploadedFile_init kw = Inl TypeError"
proof (cases "list_all (\<lambda>k. k \<in> set UploadedFile_fields) (map fst kw)")
  case False
  then show ?thesis by (simp add: UploadedFile_init_def)
next
  case True
  then have "set (map fst kw) \<subseteq> set UploadedFile_fields"
    by (auto simp: list_all_iff)
  with assms obtain k where k: "k \<in> set UploadedFile_fields" "k \<notin> set (map fst kw)"
    by blast
  then have "map_of kw k = None"
    by (simp add: map_of_eq_None_iff)
  with k(1) show ?thesis
    by (auto simp: UploadedFile_init_def UploadedFile_fields_def split: option.splits)
qed

subsection \<open>Each method as one equation\<close>

text \<open>
  Every method hands exactly one request to its session, except \<open>upload\<close> on a file
  without the two keys, which hands none. The equations below give the result and the
  object after the call in closed form.
\<close>

lemma upload_invalid:
  assumes "file ''file_name'' = None \<or> file ''content'' = None"
  shows "upload srv self file purpose_arg =
    (Inl (ValueError ''File must contain 'file_name' and 'content' keys''), self)"
  using assms by (simp add: upload_def)

lemma upload_valid:
  assumes "file ''file_name'' = Some file_name" and "file ''content'' = Some content"
  shows "upload srv self file purpose_arg =
    ((case srv \<lparr>req_method = POST, request.url = base_url self @ ''/v1/files'', params = [],
                 request.files = [(''file'', (file_name, content))],
                 data = [(''purpose'', purpose_arg)], request.json = None\<rparr> of
        Inl e \<Rightarrow> Inl e
      | Inr response \<Rightarrow>
          if status_code response \<noteq> 200
          then Inl (Exception (''Upload failed: '' @ body response))
          else (case response.json response of
                  None \<Rightarrow> Inl JSONDecodeError
                | Some result \<Rightarrow> UploadedFile_unpack result)),
     self\<lparr>FilesClient.session := (FilesClient.session self)
       \<lparr>sent := sent (FilesClient.session self) @
          [\<lparr>req_method = POST, request.url = base_url self @ ''/v1/files'', params = [],
            request.files = [(''file'', (file_name, content))],
            data = [(''purpose'', purpose_arg)], request.json = None\<rparr>]\<rparr>\<rparr>)"
  using assms by (simp add: upload_def Session_request_def split: sum.splits option.splits)

lemma process_uploaded_file_eq:
  "process_uploaded_file srv self file_id prompt_mode =
    ((case srv \<lparr>req_method = POST,
                 request.url = nvOCR.url self @ ''/v1/ocr/process_file/'' @ file_id,
                 params = [(''prompt_mode'', prompt_mode)], request.files = [], data = [],
                 request.json = None\<rparr> of
        Inl e \<Rightarrow> Inl e
      | Inr response \<Rightarrow>
          if status_code response \<noteq> 200
          then Inl (Exception (''Processing failed: '' @ body response))
          else Inr (body response)),
     self\<lparr>nvOCR.session := (nvOCR.session self)
       \<lparr>sent := sent (nvOCR.session self) @
          [\<lparr>req_method = POST,
            request.url = nvOCR.url self @ ''/v1/ocr/process_file/'' @ file_id,
            params = [(''prompt_mode'', prompt_mode)], request.files = [], data = [],
            request.json = None\<rparr>]\<rparr>\<rparr>)"
  by (simp add: process_uploaded_file_def Session_request_def split: sum.splits)

lemma process_image_eq:
  "process_image srv self document prompt_mode =
    ((case srv \<lparr>req_method = POST, request.url = nvOCR.url self @ ''/v1/ocr/process_image'',
                 params = [], request.files = [], data = [],
                 request.json = Some (PDict [(''document'', document),
                                             (''prompt_mode'', PStr prompt_mode)])\<rparr> of
        Inl e \<Rightarrow> Inl e
      | Inr response \<Rightarrow>
          if status_code response \<noteq> 200
          then Inl (Exception (''Processing failed: '' @ body response))
          else Inr (body response)),
     self\<lparr>nvOCR.session := (nvOCR.session self)
       \<lparr>sent := sent (nvOCR.session self) @
          [\<lparr>req_method = POST, request.url = nvOCR.url self @ ''/v1/ocr/process_image'',
            params = [], request.files = [], data = [],
            request.json = Some (PDict [(''document'', document),
                                        (''prompt_mode'', PStr prompt_mode)])\<rparr>]\<rparr>\<rparr>)"
  by (simp add: process_image_def Session_request_def split: sum.splits)

lemma health_check_eq:
  "health_check srv self =
    ((case srv \<lparr>req_method = GET, request.url = nvOCR.url self @ ''/health'',
                 params = [], request.files = [], data = [], request.json = None\<rparr> of
        Inl e \<Rightarrow> Inl e
      | Inr response \<Rightarrow>
          if status_code response \<noteq> 200
          then Inl (Exception (''Health check failed: '' @ body response))
          else (case response.json response of
                  None \<Rightarrow> Inl JSONDecodeError
                | Some result \<Rightarrow> Inr result)),
     self\<lparr>nvOCR.session := (nvOCR.session self)
       \<lparr>sent := sent (nvOCR.session self) @
          [\<lparr>req_method = GET, request.url = nvOCR.url self @ ''/health'',
            params = [], request.files = [], data = [], request.json = None\<rparr>]\<rparr>\<rparr>)"
  by (simp add: health_check_def Session_request_def split: sum.splits option.splits)

lemma upload_sent_urls:
  "map request.url (sent (FilesClient.session (snd (upload srv self file purpose_arg)))) =
     map request.url (sent (FilesClient.session self)) @
       (if file ''file_name'' = None \<or> file ''content'' = None then []
        else [base_url self @ ''/v1/files''])"
proof (cases "file ''file_name'' = None \<or> file ''content'' = None")
  case True
  then show ?thesis by (simp add: upload_invalid)
next
  case False
  then obtain n c where "file ''file_name'' = Some n" "file ''content'' = Some c"
    by auto
  then show ?thesis by (simp add: upload_valid)
qed

lemma nvOCR_init_simps:
  "nvOCR.url (nvOCR_init k u) = rstrip u ''/''"
  "nvOCR.api_key (nvOCR_init k u) = k"
  "sent (nvOCR.session (nvOCR_init k u)) = []"
  "base_url (files (nvOCR_init k u)) = rstrip u ''/''"
  "FilesClient.api_key (files (nvOCR_init k u)) = k"
  "sent (FilesClient.session (files (nvOCR_init k u))) = []"
  by (simp_all add: nvOCR_init_def FilesClient_init_def new_Session_def)

section \<open>The claims\<close>

subsection \<open>Upload\<close>

text \<open>
  Claim C1. Let \<open>file\<close> contain both \<open>file_name\<close> and \<open>content\<close>, and let the service
  answer the upload POST with status 200 and a JSON object \<open>kw\<close>. Then \<open>upload\<close> hands
  exactly one request to the session, the multipart POST to \<open>base_url/v1/files\<close>. If the
  keys of \<open>kw\<close> are exactly the six field names, the call returns an \<open>UploadedFile\<close>
  whose six fields are the six values of \<open>kw\<close>; if the key set is any other (a field is
  missing or an unknown key is present), the construction of the record raises
  \<open>TypeError\<close>, the error the specification calls ProtocolMismatch.
\<close>

theorem upload_returns_record:
  assumes "file ''file_name'' = Some file_name" and "file ''content'' = Some content"
    and "srv \<lparr>req_method = POST, request.url = base_url self @ ''/v1/files'', params = [],
              request.files = [(''file'', (file_name, content))],
              data = [(''purpose'', purpose_arg)], request.json = None\<rparr> = Inr resp"
    and "status_code resp = 200"
    and "response.json resp = Some (PDict kw)"
  shows "sent (FilesClient.session (snd (upload srv self file purpose_arg))) =
           sent (FilesClient.session self) @
             [\<lparr>req_method = POST, request.url = base_url self @ ''/v1/files'', params = [],
               request.files = [(''file'', (file_name, content))],
               data = [(''purpose'', purpose_arg)], request.json = None\<rparr>]
       \<and> (set (map fst kw) = set UploadedFile_fields \<longrightarrow>
            (\<exists>uf. fst (upload srv self file purpose_arg) = Inr uf \<and>
               map_of kw ''id'' = Some (uf_id uf) \<and> map_of kw ''purpose'' = Some (purpose uf) \<and>
               map_of kw ''filename'' = Some (filename uf) \<and> map_of kw ''bytes'' = Some (bytes uf) \<and>
               map_of kw ''created_at'' = Some (created_at uf) \<and>
               map_of kw ''status'' = Some (status uf)))
       \<and> (set (map fst kw) \<noteq> set UploadedFile_fields \<longrightarrow>
            fst (upload srv self file purpose_arg) = Inl TypeError)"
proof -
  have u: "upload srv self file purpose_arg =
      (UploadedFile_init kw,
       self\<lparr>FilesClient.session := (FilesClient.session self)\<lparr>sent := sent (FilesClient.session self) @
             [\<lparr>req_method = POST, request.url = base_url self @ ''/v1/files'', params = [],
               request.files = [(''file'', (file_name, content))],
               data = [(''purpose'', purpose_arg)], request.json = None\<rparr>]\<rparr>\<rparr>)"
    using assms by (simp add: upload_def Session_request_def UploadedFile_unpack_def)
  show ?thesis
    unfolding u using UploadedFile_init_exact [of kw] UploadedFile_init_drift [of kw]
    by simp
qed

theorem upload_returns_record_witness:
  "sent (FilesClient.session (snd (upload (replies (ok_json example_fields))
      (FilesClient_init ''http://host:8000'' ''key'') example_file ''ocr''))) =
     [\<lparr>req_method = POST, request.url = ''http://host:8000/v1/files'', params = [],
       request.files = [(''file'', (PStr ''a.png'', PBytes ''0123456789''))],
       data = [(''purpose'', ''ocr'')], request.json = None\<rparr>]
   \<and> (\<exists>uf. fst (upload (replies (ok_json example_fields))
      (FilesClient_init ''http://host:8000'' ''key'') example_file ''ocr'') = Inr uf
        \<and> uf_id uf = PStr ''f1'' \<and> bytes uf = PInt 10)
   \<and> fst (upload (replies (ok_json (example_fields @ [(''object'', PStr ''file'')])))
      (FilesClient_init ''http://host:8000'' ''key'') example_file ''ocr'') = Inl TypeError
   \<and> fst (upload (replies (ok_json (tl example_fields)))
      (FilesClient_init ''http://host:8000'' ''key'') example_file ''ocr'') = Inl TypeError"
proof -
  let ?c = "FilesClient_init ''http://host:8000'' ''key''"
  have f: "example_file ''file_name'' = Some (PStr ''a.png'')"
    "example_file ''content'' = Some (PBytes ''0123456789'')"
    by (simp_all add: example_file_def)
  have r: "\<And>kw req. replies (ok_json kw) req = Inr (ok_json kw)"
    "\<And>kw. status_code (ok_json kw) = 200"
    "\<And>kw. response.json (ok_json kw) = Some (PDict kw)"
    by (simp_all add: replies_def ok_json_def)
  have b: "base_url ?c = ''http://host:8000''" "sent (FilesClient.session ?c) = []"
    by (simp_all add: FilesClient_init_def new_Session_def)
  have k1: "set (map fst example_fields) = set UploadedFile_fields"
    by (simp add: example_fields_def UploadedFile_fields_def)
  have "''object'' \<in> set (map fst (example_fields @ [(''object'', PStr ''file'')]))"
    by simp
  moreover have "''object'' \<notin> set UploadedFile_fields"
    by (simp add: UploadedFile_fields_def)
  ultimately have k2: "set (map fst (example_fields @ [(''object'', PStr ''file'')])) \<noteq> set UploadedFile_fields"
    by metis
  have "''id'' \<notin> set (map fst (tl example_fields))"
    by (simp add: example_fields_def)
  moreover have "''id'' \<in> set UploadedFile_fields"
    by (simp add: UploadedFile_fields_def)
  ultimately have k3: "set (map fst (tl example_fields)) \<noteq> set UploadedFile_fields"
    by metis
  have m: "map_of example_fields ''id'' = Some (PStr ''f1'')"
    "map_of example_fields ''bytes'' = Some (PInt 10)"
    by (simp_all add: example_fields_def)
  note t1 = upload_returns_record [of example_file _ _ "replies (ok_json (example_fields))" "?c" "''ocr''"
      "ok_json (example_fields)" "example_fields", OF f r(1) r(2) r(3)]
  note t2 = upload_returns_record [of example_file _ _ "replies (ok_json (example_fields @ [(''object'', PStr ''file'')]))" "?c" "''ocr''"
      "ok_json (example_fields @ [(''object'', PStr ''file'')])" "example_fields @ [(''object'', PStr ''file'')]", OF f r(1) r(2) r(3)]
  note t3 = upload_returns_record [of example_file _ _ "replies (ok_json (tl example_fields))" "?c" "''ocr''"
      "ok_json (tl example_fields)" "tl example_fields", OF f r(1) r(2) r(3)]
  have "\<exists>uf. fst (upload (replies (ok_json example_fields)) ?c example_file ''ocr'') = Inr uf
        \<and> uf_id uf = PStr ''f1'' \<and> bytes uf = PInt 10"
    using t1 k1 m by auto
  moreover have "sent (FilesClient.session (snd (upload (replies (ok_json example_fields))
      ?c example_file ''ocr''))) =
     [\<lparr>req_method = POST, request.url = ''http://host:8000/v1/files'', params = [],
       request.files = [(''file'', (PStr ''a.png'', PBytes ''0123456789''))],
       data = [(''purpose'', ''ocr'')], request.json = None\<rparr>]"
    using t1 b by simp
  ultimately show ?thesis using t2 k2 t3 k3 by blast
qed

text \<open>
  Claim C2. If \<open>file\<close> lacks \<open>file_name\<close> or lacks \<open>content\<close>, \<open>upload\<close> raises
  \<open>ValueError\<close> (the specification's InvalidArgument), whatever the service would answer,
  and returns the client as it was: no request has been handed to the session.
\<close>

theorem upload_missing_key:
  assumes "file ''file_name'' = None \<or> file ''content'' = None"
  shows "upload srv self file purpose_arg =
           (Inl (ValueError ''File must contain 'file_name' and 'content' keys''), self)
       \<and> sent (FilesClient.session (snd (upload srv self file purpose_arg))) =
           sent (FilesClient.session self)"
  using assms by (simp add: upload_invalid)

theorem upload_missing_key_witness:
  "upload (replies (ok_json example_fields)) (FilesClient_init ''http://host:8000'' ''key'')
      [''content'' \<mapsto> PBytes ''0123456789''] ''ocr'' =
     (Inl (ValueError ''File must contain 'file_name' and 'content' keys''),
      FilesClient_init ''http://host:8000'' ''key'')
   \<and> sent (FilesClient.session (snd (upload (replies (ok_json example_fields))
      (FilesClient_init ''http://host:8000'' ''key'')
      [''content'' \<mapsto> PBytes ''0123456789''] ''ocr''))) = []"
  using upload_missing_key [of "[''content'' \<mapsto> PBytes ''0123456789'']"
      "replies (ok_json example_fields)" "FilesClient_init ''http://host:8000'' ''key''" "''ocr''"]
  by (simp add: FilesClient_init_def new_Session_def)

subsection \<open>Text passthrough and failures\<close>

text \<open>
  Claim C3. For every \<open>file_id\<close>, \<open>document\<close> and \<open>prompt_mode\<close>: when the service answers
  the request of \<open>process_uploaded_file\<close> (of \<open>process_image\<close>) with status 200, the call
  returns the text of the response as it is, whatever that text is.
\<close>

theorem process_returns_body:
  "(srv \<lparr>req_method = POST, request.url = nvOCR.url self @ ''/v1/ocr/process_file/'' @ file_id,
         params = [(''prompt_mode'', prompt_mode)], request.files = [], data = [],
         request.json = None\<rparr> = Inr resp \<and> status_code resp = 200 \<longrightarrow>
      fst (process_uploaded_file srv self file_id prompt_mode) = Inr (body resp))
   \<and> (srv \<lparr>req_method = POST, request.url = nvOCR.url self @ ''/v1/ocr/process_image'',
         params = [], request.files = [], data = [],
         request.json = Some (PDict [(''document'', document),
                                     (''prompt_mode'', PStr prompt_mode)])\<rparr> = Inr resp'
       \<and> status_code resp' = 200 \<longrightarrow>
      fst (process_image srv self document prompt_mode) = Inr (body resp'))"
  by (simp add: process_uploaded_file_eq process_image_eq)

theorem process_returns_body_witness:
  "fst (process_uploaded_file (replies (ok_text (''# Title'' @ [CHR 0x0A] @ ''Body'')))
      (nvOCR_init ''key'' ''http://host:8000'') ''f1'' ''prompt_layout_all_en'') =
     Inr (''# Title'' @ [CHR 0x0A] @ ''Body'')
   \<and> fst (process_image (replies (ok_text (''# Title'' @ [CHR 0x0A] @ ''Body'')))
      (nvOCR_init ''key'' ''http://host:8000'')
      (PDict [(''type'', PStr ''image_url''), (''image_url'', PStr ''data:image/png;base64,AAAA'')])
      ''prompt_layout_all_en'') =
     Inr (''# Title'' @ [CHR 0x0A] @ ''Body'')"
  using process_returns_body [of "replies (ok_text (''# Title'' @ [CHR 0x0A] @ ''Body''))"
      "nvOCR_init ''key'' ''http://host:8000''" "''f1''" "''prompt_layout_all_en''"
      "ok_text (''# Title'' @ [CHR 0x0A] @ ''Body'')"
      "PDict [(''type'', PStr ''image_url''), (''image_url'', PStr ''data:image/png;base64,AAAA'')]"
      "ok_text (''# Title'' @ [CHR 0x0A] @ ''Body'')"]
  by (simp add: replies_def ok_text_def)

text \<open>
  Against claim C4 as stated: a 500 and a 404 response with the same body make
  \<open>health_check\<close> raise the same exception, so the exception does not carry the status.
\<close>

theorem error_omits_status_counterexample:
  "fst (health_check (replies (failure 500 ''internal error''))
         (nvOCR_init ''key'' ''http://host:8000'')) =
     Inl (Exception ''Health check failed: internal error'')
   \<and> fst (health_check (replies (failure 404 ''internal error''))
         (nvOCR_init ''key'' ''http://host:8000'')) =
     Inl (Exception ''Health check failed: internal error'')
   \<and> status_code (failure 500 ''internal error'') \<noteq> status_code (failure 404 ''internal error'')"
  by (simp add: health_check_eq replies_def failure_def)

text \<open>
  Claim C4, amended. When the service answers with a status other than 200, \<open>upload\<close>
  (on a file with both keys), \<open>process_uploaded_file\<close>, \<open>process_image\<close> and
  \<open>health_check\<close> raise an \<open>Exception\<close> whose message is \<open>Upload failed: \<close>,
  \<open>Processing failed: \<close>, \<open>Processing failed: \<close> or \<open>Health check failed: \<close> followed by
  the unmodified text of the response. The message depends on the response through its
  text only; the status code is not part of the exception.
\<close>

theorem non_200_raises_with_body:
  assumes "status_code resp \<noteq> 200"
  shows
   "(file ''file_name'' = Some file_name \<and> file ''content'' = Some content \<and>
     srv \<lparr>req_method = POST, request.url = base_url fc @ ''/v1/files'', params = [],
          request.files = [(''file'', (file_name, content))],
          data = [(''purpose'', purpose_arg)], request.json = None\<rparr> = Inr resp \<longrightarrow>
      fst (upload srv fc file purpose_arg) =
        Inl (Exception (''Upload failed: '' @ body resp)))
   \<and> (srv \<lparr>req_method = POST, request.url = nvOCR.url self @ ''/v1/ocr/process_file/'' @ file_id,
         params = [(''prompt_mode'', prompt_mode)], request.files = [], data = [],
         request.json = None\<rparr> = Inr resp \<longrightarrow>
      fst (process_uploaded_file srv self file_id prompt_mode) =
        Inl (Exception (''Processing failed: '' @ body resp)))
   \<and> (srv \<lparr>req_method = POST, request.url = nvOCR.url self @ ''/v1/ocr/process_image'',
         params = [], request.files = [], data = [],
         request.json = Some (PDict [(''document'', document),
                                     (''prompt_mode'', PStr prompt_mode)])\<rparr> = Inr resp \<longrightarrow>
      fst (process_image srv self document prompt_mode) =
        Inl (Exception (''Processing failed: '' @ body resp)))
   \<and> (srv \<lparr>req_method = GET, request.url = nvOCR.url self @ ''/health'', params = [],
         request.files = [], data = [], request.json = None\<rparr> = Inr resp \<longrightarrow>
      fst (health_check srv self) =
        Inl (Exception (''Health check failed: '' @ body resp)))"
  using assms
  by (simp add: upload_valid process_uploaded_file_eq process_image_eq health_check_eq)

theorem non_200_raises_with_body_witness:
  "fst (upload (replies (failure 500 ''internal error''))
         (files (nvOCR_init ''key'' ''http://host:8000'')) example_file ''ocr'') =
     Inl (Exception ''Upload failed: internal error'')
   \<and> fst (process_uploaded_file (replies (failure 500 ''internal error''))
         (nvOCR_init ''key'' ''http://host:8000'') ''f1'' ''prompt_layout_all_en'') =
     Inl (Exception ''Processing failed: internal error'')
   \<and> fst (process_image (replies (failure 500 ''internal error''))
         (nvOCR_init ''key'' ''http://host:8000'') (PDict []) ''prompt_layout_all_en'') =
     Inl (Exception ''Processing failed: internal error'')
   \<and> fst (health_check (replies (failure 500 ''internal error''))
         (nvOCR_init ''key'' ''http://host:8000'')) =
     Inl (Exception ''Health check failed: internal error'')"
  using non_200_raises_with_body [of "failure 500 ''internal error''" example_file
      "PStr ''a.png''" "PBytes ''0123456789''" "replies (failure 500 ''internal error'')"
      "files (nvOCR_init ''key'' ''http://host:8000'')" "''ocr''"
      "nvOCR_init ''key'' ''http://host:8000''" "''f1''" "''prompt_layout_all_en''" "PDict []"]
  by (simp add: replies_def failure_def example_file_def)

subsection \<open>The base URL\<close>

text \<open>
  Against claim C5 as stated: of a URL that ends in two slashes the constructor removes
  both, where removing exactly one would keep one.
\<close>

theorem strip_one_slash_counterexample:
  "nvOCR.url (nvOCR_init ''key'' ''http://host:8000//'') = ''http://host:8000''
   \<and> nvOCR.url (nvOCR_init ''key'' ''http://host:8000//'') \<noteq>
       spec_strip_one_trailing_slash ''http://host:8000//''"
  by (simp add: nvOCR_init_def rstrip_def spec_strip_one_trailing_slash_def)

text \<open>
  Claim C5, amended. For every \<open>url\<close>, the constructor stores \<open>url\<close> without all of its
  trailing slashes: the stored URL is \<open>url.rstrip('/')\<close>, the given URL is the stored one
  followed by slashes only, and the stored one does not end in a slash. It stores the
  \<open>api_key\<close>, builds the embedded \<open>FilesClient\<close> with the same stored URL and the same
  key, and hands no request to either session.
\<close>

theorem nvOCR_init_strips_all_slashes:
  "nvOCR.url (nvOCR_init k u) = rstrip u ''/''
   \<and> (\<exists>n. u = nvOCR.url (nvOCR_init k u) @ replicate n CHR ''/'')
   \<and> (\<forall>v. nvOCR.url (nvOCR_init k u) \<noteq> v @ ''/'')
   \<and> nvOCR.api_key (nvOCR_init k u) = k
   \<and> base_url (files (nvOCR_init k u)) = nvOCR.url (nvOCR_init k u)
   \<and> FilesClient.api_key (files (nvOCR_init k u)) = k
   \<and> sent (nvOCR.session (nvOCR_init k u)) = []
   \<and> sent (FilesClient.session (files (nvOCR_init k u))) = []"
  using rstrip_decomp [of u "CHR ''/''"] rstrip_no_trailing [of u "CHR ''/''"]
  by (simp add: nvOCR_init_simps)

theorem nvOCR_init_strips_all_slashes_witness:
  "nvOCR.url (nvOCR_init ''key'' ''http://host:8000//'') = ''http://host:8000''
   \<and> nvOCR.api_key (nvOCR_init ''key'' ''http://host:8000//'') = ''key''
   \<and> base_url (files (nvOCR_init ''key'' ''http://host:8000//'')) = ''http://host:8000''
   \<and> sent (nvOCR.session (nvOCR_init ''key'' ''http://host:8000//'')) = []
   \<and> sent (FilesClient.session (files (nvOCR_init ''key'' ''http://host:8000//''))) = []"
  using nvOCR_init_strips_all_slashes [of "''key''" "''http://host:8000//''"]
  by (simp add: rstrip_def)

text \<open>
  Claim C6. A client built with \<open>http://host:8000/\<close> and one built with
  \<open>http://host:8000\<close> (same key, same arguments, any two services) send requests with
  the same URLs in each of the four operations.
\<close>

theorem trailing_slash_same_urls:
  "map request.url (sent (FilesClient.session (snd
       (upload srv (files (nvOCR_init k ''http://host:8000/'')) file purpose_arg)))) =
   map request.url (sent (FilesClient.session (snd
       (upload srv' (files (nvOCR_init k ''http://host:8000'')) file purpose_arg))))
   \<and> map request.url (sent (nvOCR.session (snd
       (process_uploaded_file srv (nvOCR_init k ''http://host:8000/'') file_id prompt_mode)))) =
     map request.url (sent (nvOCR.session (snd
       (process_uploaded_file srv' (nvOCR_init k ''http://host:8000'') file_id prompt_mode))))
   \<and> map request.url (sent (nvOCR.session (snd
       (process_image srv (nvOCR_init k ''http://host:8000/'') document prompt_mode)))) =
     map request.url (sent (nvOCR.session (snd
       (process_image srv' (nvOCR_init k ''http://host:8000'') document prompt_mode))))
   \<and> map request.url (sent (nvOCR.session (snd
       (health_check srv (nvOCR_init k ''http://host:8000/''))))) =
     map request.url (sent (nvOCR.session (snd
       (health_check srv' (nvOCR_init k ''http://host:8000'')))))"
proof -
  have "rstrip ''http://host:8000/'' ''/'' = rstrip ''http://host:8000'' ''/''"
    by (simp add: rstrip_def)
  then show ?thesis
    by (simp add: upload_sent_urls process_uploaded_file_eq process_image_eq health_check_eq
        nvOCR_init_simps)
qed

theorem trailing_slash_same_urls_witness:
  "map request.url (sent (FilesClient.session (snd
       (upload (replies (ok_text ''# Title'')) (files (nvOCR_init ''key'' ''http://host:8000/''))
          example_file ''ocr'')))) = [''http://host:8000/v1/files'']
   \<and> map request.url (sent (nvOCR.session (snd
       (process_uploaded_file (replies (ok_text ''# Title''))
          (nvOCR_init ''key'' ''http://host:8000/'') ''f1'' ''prompt_layout_all_en'')))) =
     [''http://host:8000/v1/ocr/process_file/f1'']
   \<and> map request.url (sent (nvOCR.session (snd
       (process_image (replies (ok_text ''# Title''))
          (nvOCR_init ''key'' ''http://host:8000/'') (PDict []) ''prompt_layout_all_en'')))) =
     [''http://host:8000/v1/ocr/process_image'']
   \<and> map request.url (sent (nvOCR.session (snd
       (health_check (replies (ok_text ''# Title'')) (nvOCR_init ''key'' ''http://host:8000/''))))) =
     [''http://host:8000/health'']"
proof -
  have r: "rstrip ''http://host:8000'' ''/'' = ''http://host:8000''"
    by (simp add: rstrip_def)
  have f: "example_file ''file_name'' \<noteq> None" "example_file ''content'' \<noteq> None"
    by (simp_all add: example_file_def)
  note t = trailing_slash_same_urls [of "replies (ok_text ''# Title'')" "''key''" example_file
      "''ocr''" "replies (ok_text ''# Title'')" "''f1''" "''prompt_layout_all_en''" "PDict []"]
  show ?thesis
    unfolding t [THEN conjunct1] t [THEN conjunct2, THEN conjunct1]
      t [THEN conjunct2, THEN conjunct2, THEN conjunct1]
      t [THEN conjunct2, THEN conjunct2, THEN conjunct2]
    using f
    by (simp add: upload_sent_urls process_uploaded_file_eq process_image_eq health_check_eq
        nvOCR_init_simps r)
qed

text \<open>
  Against claim C7 as stated: upper-case letters of the URL are stored as they are, so
  the stored URL differs from the lower-cased, slash-stripped one.
\<close>

theorem lowercase_counterexample:
  "nvOCR.url (nvOCR_init ''key'' ''http://HOST:8000/'') = ''http://HOST:8000''
   \<and> nvOCR.url (nvOCR_init ''key'' ''http://HOST:8000/'') \<noteq>
       spec_lowercase (rstrip ''http://HOST:8000/'' ''/'')"
proof -
  have "spec_lowercase (rstrip ''http://HOST:8000/'' ''/'') = ''http://host:8000''"
    by code_simp
  then show ?thesis by (simp add: nvOCR_init_def rstrip_def)
qed

text \<open>
  Claim C7, amended. The endpoint root shared by the four operations is the given URL
  with its trailing slashes stripped and its letter case unchanged, with no lower-casing:
  the stored URL is \<open>url.rstrip('/')\<close>, the given URL is the stored one followed by
  slashes only (so the stored URL is a prefix of the given one, character for character),
  the stored URL does not end in a slash, and the URL of the request of each operation
  is the stored URL followed by the path of the operation.
\<close>

theorem endpoint_root_keeps_case:
  "nvOCR.url (nvOCR_init k u) = rstrip u ''/''
   \<and> (\<exists>n. u = nvOCR.url (nvOCR_init k u) @ replicate n CHR ''/'')
   \<and> (\<forall>v. nvOCR.url (nvOCR_init k u) \<noteq> v @ ''/'')
   \<and> take (length (nvOCR.url (nvOCR_init k u))) u = nvOCR.url (nvOCR_init k u)
   \<and> map request.url (sent (FilesClient.session (snd
         (upload srv (files (nvOCR_init k u)) file purpose_arg)))) =
       (if file ''file_name'' = None \<or> file ''content'' = None then []
        else [rstrip u ''/'' @ ''/v1/files''])
   \<and> map request.url (sent (nvOCR.session (snd
         (process_uploaded_file srv (nvOCR_init k u) file_id prompt_mode)))) =
       [rstrip u ''/'' @ ''/v1/ocr/process_file/'' @ file_id]
   \<and> map request.url (sent (nvOCR.session (snd
         (process_image srv (nvOCR_init k u) document prompt_mode)))) =
       [rstrip u ''/'' @ ''/v1/ocr/process_image'']
   \<and> map request.url (sent (nvOCR.session (snd (health_check srv (nvOCR_init k u))))) =
       [rstrip u ''/'' @ ''/health'']"
  using rstrip_prefix [of u "''/''"] rstrip_decomp [of u "CHR ''/''"]
    rstrip_no_trailing [of u "CHR ''/''"]
  by (simp add: upload_sent_urls process_uploaded_file_eq process_image_eq health_check_eq
      nvOCR_init_simps)

theorem endpoint_root_keeps_case_witness:
  "nvOCR.url (nvOCR_init ''key'' ''http://HOST:8000//'') = ''http://HOST:8000''
   \<and> map request.url (sent (FilesClient.session (snd
         (upload (replies (ok_json [])) (files (nvOCR_init ''key'' ''http://HOST:8000//''))
            example_file ''ocr'')))) =
       [''http://HOST:8000/v1/files'']
   \<and> map request.url (sent (nvOCR.session (snd
         (process_uploaded_file (replies (ok_json [])) (nvOCR_init ''key'' ''http://HOST:8000//'')
            ''f1'' ''prompt_layout_all_en'')))) =
       [''http://HOST:8000/v1/ocr/process_file/f1'']
   \<and> map request.url (sent (nvOCR.session (snd
         (process_image (replies (ok_json [])) (nvOCR_init ''key'' ''http://HOST:8000//'')
            (PDict []) ''prompt_layout_all_en'')))) =
       [''http://HOST:8000/v1/ocr/process_image'']
   \<and> map request.url (sent (nvOCR.session (snd
         (health_check (replies (ok_json [])) (nvOCR_init ''key'' ''http://HOST:8000//''))))) =
       [''http://HOST:8000/health'']"
proof -
  have r: "rstrip ''http://HOST:8000//'' ''/'' = ''http://HOST:8000''"
    by (simp add: rstrip_def)
  have f: "example_file ''file_name'' \<noteq> None" "example_file ''content'' \<noteq> None"
    by (simp_all add: example_file_def)
  show ?thesis
    using endpoint_root_keeps_case [of "''key''" "''http://HOST:8000//''" "replies (ok_json [])"
        example_file "''ocr''" "''f1''" "''prompt_layout_all_en''" "PDict []"] f
    by (simp add: r)
qed

subsection \<open>The key and the configuration\<close>



text \<open>
  Claim C9. No operation changes the configuration. \<open>upload\<close> leaves \<open>base_url\<close> and
  \<open>api_key\<close> of the \<open>FilesClient\<close> it is called on as they were; \<open>process_uploaded_file\<close>,
  \<open>process_image\<close> and \<open>health_check\<close> leave \<open>url\<close>, \<open>api_key\<close> and the embedded
  \<open>FilesClient\<close> of the client as they were. This holds for every service, so on the
  success path and on every error path.
\<close>

theorem configuration_unchanged:
  "base_url (snd (upload srv fc file purpose_arg)) = base_url fc
   \<and> FilesClient.api_key (snd (upload srv fc file purpose_arg)) = FilesClient.api_key fc
   \<and> nvOCR.url (snd (process_uploaded_file srv self file_id prompt_mode)) = nvOCR.url self
   \<and> nvOCR.api_key (snd (process_uploaded_file srv self file_id prompt_mode)) = nvOCR.api_key self
   \<and> files (snd (process_uploaded_file srv self file_id prompt_mode)) = files self
   \<and> nvOCR.url (snd (process_image srv self document prompt_mode)) = nvOCR.url self
   \<and> nvOCR.api_key (snd (process_image srv self document prompt_mode)) = nvOCR.api_key self
   \<and> files (snd (process_image srv self document prompt_mode)) = files self
   \<and> nvOCR.url (snd (health_check srv self)) = nvOCR.url self
   \<and> nvOCR.api_key (snd (health_check srv self)) = nvOCR.api_key self
   \<and> files (snd (health_check srv self)) = files self"
proof -
  have up: "base_url (snd (upload srv fc file purpose_arg)) = base_url fc
    \<and> FilesClient.api_key (snd (upload srv fc file purpose_arg)) = FilesClient.api_key fc"
  proof (cases "file ''file_name'' = None \<or> file ''content'' = None")
    case True
    then show ?thesis by (simp add: upload_invalid)
  next
    case False
    then obtain n c where "file ''file_name'' = Some n" "file ''content'' = Some c"
      by auto
    then show ?thesis by (simp add: upload_valid)
  qed
  show ?thesis
    using up by (simp add: process_uploaded_file_eq process_image_eq health_check_eq)
qed

theorem configuration_unchanged_witness:
  "base_url (snd (upload (replies (failure 500 ''internal error''))
       (files (nvOCR_init ''key'' ''http://host:8000/'')) example_file ''ocr'')) = ''http://host:8000''
   \<and> FilesClient.api_key (snd (upload (replies (failure 500 ''internal error''))
       (files (nvOCR_init ''key'' ''http://host:8000/'')) example_file ''ocr'')) = ''key''
   \<and> nvOCR.url (snd (health_check (replies (failure 500 ''internal error''))
       (nvOCR_init ''key'' ''http://host:8000/''))) = ''http://host:8000''
   \<and> nvOCR.api_key (snd (process_uploaded_file (replies (ok_text ''# Title''))
       (nvOCR_init ''key'' ''http://host:8000/'') ''f1'' ''prompt_layout_all_en'')) = ''key''"
proof -
  have r: "rstrip ''http://host:8000/'' ''/'' = ''http://host:8000''"
    by (simp add: rstrip_def)
  note a = configuration_unchanged [of "replies (failure 500 ''internal error'')"
      "files (nvOCR_init ''key'' ''http://host:8000/'')" example_file "''ocr''"
      "nvOCR_init ''key'' ''http://host:8000/''" "''f1''" "''prompt_layout_all_en''" "PDict []"]
  note b = configuration_unchanged [of "replies (ok_text ''# Title'')"
      "files (nvOCR_init ''key'' ''http://host:8000/'')" example_file "''ocr''"
      "nvOCR_init ''key'' ''http://host:8000/''" "''f1''" "''prompt_layout_all_en''" "PDict []"]
  show ?thesis using a b by (simp add: nvOCR_init_simps r)
qed

subsection \<open>The URL of \<open>process_uploaded_file\<close>\<close>

text \<open>
  Claim C10. For every string \<open>file_id\<close>, \<open>process_uploaded_file\<close> hands the session one
  POST whose URL is the stored base URL, then \<open>/v1/ocr/process_file/\<close>, then \<open>file_id\<close> as
  given, with nothing escaped or checked; for the empty \<open>file_id\<close> the URL ends in
  \<open>/v1/ocr/process_file/\<close>.
\<close>

theorem process_file_url_concatenation:
  "sent (nvOCR.session (snd (process_uploaded_file srv self file_id prompt_mode))) =
     sent (nvOCR.session self) @
       [\<lparr>req_method = POST,
         request.url = nvOCR.url self @ ''/v1/ocr/process_file/'' @ file_id,
         params = [(''prompt_mode'', prompt_mode)], request.files = [], data = [],
         request.json = None\<rparr>]
   \<and> map request.url (sent (nvOCR.session (snd (process_uploaded_file srv self [] prompt_mode)))) =
       map request.url (sent (nvOCR.session self)) @ [nvOCR.url self @ ''/v1/ocr/process_file/'']"
  by (simp add: process_uploaded_file_eq)

theorem process_file_url_concatenation_witness:
  "map request.url (sent (nvOCR.session (snd (process_uploaded_file (replies (ok_text ''# Title''))
       (nvOCR_init ''key'' ''http://host:8000'') ''../files?x=1#frag'' ''prompt_layout_all_en'')))) =
     [''http://host:8000/v1/ocr/process_file/../files?x=1#frag'']
   \<and> map request.url (sent (nvOCR.session (snd (process_uploaded_file (replies (ok_text ''# Title''))
       (nvOCR_init ''key'' ''http://host:8000'') [] ''prompt_layout_all_en'')))) =
     [''http://host:8000/v1/ocr/process_file/'']"
proof -
  have r: "rstrip ''http://host:8000'' ''/'' = ''http://host:8000''"
    by (simp add: rstrip_def)
  show ?thesis
    using process_file_url_concatenation [of "replies (ok_text ''# Title'')"
        "nvOCR_init ''key'' ''http://host:8000''" "''../files?x=1#frag''" "''prompt_layout_all_en''"]
    by (simp add: nvOCR_init_simps r)
qed

end
